theory Spec2Isabelle
  imports
    Main
    "HOL-Library.Char_ord"
    "HOL-Library.List_Lexorder"
    "HOL-Library.Product_Lexorder"
    "HOL-Library.Extended_Nat"
    "HOL-Library.Multiset"
begin

section \<open>Lexicon dictionaries\<close>

text \<open>
  A lexicon category is a Python \<^verbatim>\<open>dict\<close> from words to integer weights. Python
  dictionaries keep their keys in insertion order and the resolver reads that order
  (\<^verbatim>\<open>list(positivos)\<close>), so a dictionary is an association list; a lookup finds the
  entry of a key, and a well-formed dictionary has every key once.
\<close>

type_synonym dict = "(string \<times> int) list"

definition has_key :: "dict \<Rightarrow> string \<Rightarrow> bool" where
  \<comment> \<open>\<^verbatim>\<open>w in d\<close>\<close>
  "has_key d w = (map_of d w \<noteq> None)"

definition keys :: "dict \<Rightarrow> string list" where
  \<comment> \<open>\<^verbatim>\<open>list(d)\<close>\<close>
  "keys d = map fst d"

definition weight :: "dict \<Rightarrow> string \<Rightarrow> int" where
  \<comment> \<open>\<^verbatim>\<open>d[w]\<close> for a key that is present\<close>
  "weight d w = the (map_of d w)"

section \<open>Sentiment scorer (analysis.py, analiza\_sentimiento)\<close>

record sentiment =
  total :: int
  pos_count :: nat
  pos_words :: "string list"
  top_pos_words :: "string list"
  top_pos_weight :: int
  neg_count :: nat
  neg_words :: "string list"
  top_neg_words :: "string list"
  top_neg_weight :: int
  neut_count :: nat
  neut_words :: "string list"

text \<open>
  The loop over the tokens carries \<^verbatim>\<open>total\<close>, \<^verbatim>\<open>pos_list\<close>, \<^verbatim>\<open>neg_list\<close> and
  \<^verbatim>\<open>neut_list\<close>; one token takes the first branch of the \<^verbatim>\<open>if/elif/elif\<close> chain
  whose dictionary holds it.
\<close>

type_synonym tally = "int \<times> (string \<times> int) list \<times> (string \<times> int) list \<times> string list"

definition score_word :: "dict \<Rightarrow> dict \<Rightarrow> dict \<Rightarrow> string \<Rightarrow> tally \<Rightarrow> tally" where
  "score_word positivos negativos neutros w acc =
     (case acc of (tot, pos_list, neg_list, neut_list) \<Rightarrow>
        (case map_of positivos w of
           Some p \<Rightarrow> (tot + p, pos_list @ [(w, p)], neg_list, neut_list)
         | None \<Rightarrow>
             (case map_of negativos w of
                Some n \<Rightarrow> (tot + n, pos_list, neg_list @ [(w, n)], neut_list)
              | None \<Rightarrow>
                  if has_key neutros w then (tot, pos_list, neg_list, neut_list @ [w])
                  else (tot, pos_list, neg_list, neut_list))))"

fun score_loop :: "dict \<Rightarrow> dict \<Rightarrow> dict \<Rightarrow> string list \<Rightarrow> tally \<Rightarrow> tally" where
  "score_loop positivos negativos neutros [] acc = acc"
| "score_loop positivos negativos neutros (w # ws) acc =
     score_loop positivos negativos neutros ws (score_word positivos negativos neutros w acc)"

definition top_pos :: "(string \<times> int) list \<Rightarrow> int \<times> string list" where
  "top_pos pos_list =
     (case map snd pos_list of
        [] \<Rightarrow> (0, [])
      | p # ps \<Rightarrow>
          (let top_pos_weight = fold max ps p
           in (top_pos_weight, map fst (filter (\<lambda>(w, p). p = top_pos_weight) pos_list))))"

definition top_neg :: "(string \<times> int) list \<Rightarrow> int \<times> string list" where
  "top_neg neg_list =
     (case map snd neg_list of
        [] \<Rightarrow> (0, [])
      | n # ns \<Rightarrow>
          (let top_neg_weight = fold min ns n
           in (top_neg_weight, map fst (filter (\<lambda>(w, n). n = top_neg_weight) neg_list))))"

definition analiza_sentimiento ::
  "string list \<Rightarrow> dict \<Rightarrow> dict \<Rightarrow> dict \<Rightarrow> sentiment" where
  "analiza_sentimiento words positivos negativos neutros =
     (case score_loop positivos negativos neutros words (0, [], [], []) of
        (tot, pos_list, neg_list, neut_list) \<Rightarrow>
          \<lparr> total = tot,
            pos_count = length pos_list,
            pos_words = map fst pos_list,
            top_pos_words = snd (top_pos pos_list),
            top_pos_weight = fst (top_pos pos_list),
            neg_count = length neg_list,
            neg_words = map fst neg_list,
            top_neg_words = snd (top_neg neg_list),
            top_neg_weight = fst (top_neg neg_list),
            neut_count = length neut_list,
            neut_words = neut_list \<rparr>)"

section \<open>Undefined words (analysis.py, find\_undefined)\<close>

text \<open>
  \<^verbatim>\<open>sorted({w for w in words if ...})\<close>: the set comprehension drops repeated
  tokens and \<^verbatim>\<open>sorted\<close> orders the strings by code point, shorter prefix first.
\<close>

definition find_undefined :: "string list \<Rightarrow> dict \<Rightarrow> dict \<Rightarrow> dict \<Rightarrow> string list" where
  "find_undefined words positivos negativos neutros =
     sort (remdups (filter (\<lambda>w. \<not> has_key positivos w \<and> \<not> has_key negativos w
                                   \<and> \<not> has_key neutros w) words))"

section \<open>Text primitives of the Python library\<close>

text \<open>
  A Python \<^verbatim>\<open>str\<close> is a sequence of code points. The transcripts are Spanish text,
  and a \<^typ>\<open>char\<close> here stands for one code point below 256 (Latin-1); the library
  functions below are the Python ones restricted to that range, where they are closed.
\<close>

definition code :: "char \<Rightarrow> nat" where
  "code c = of_char c"

definition lower_char :: "char \<Rightarrow> char" where
  \<comment> \<open>\<^verbatim>\<open>str.lower\<close>: A-Z and the capital letters U+00C0..U+00DE (without the sign
      U+00D7) move up by 32.\<close>
  "lower_char c =
     (if (65 \<le> code c \<and> code c \<le> 90) \<or> (192 \<le> code c \<and> code c \<le> 222 \<and> code c \<noteq> 215)
      then char_of (code c + 32) else c)"

definition lower :: "string \<Rightarrow> string" where
  "lower s = map lower_char s"

definition base_letter :: "char \<Rightarrow> char" where
  \<comment> \<open>canonical decomposition (NFD) of one code point with the combining marks
      (category Mn) dropped: an accented letter becomes its base letter\<close>
  "base_letter c =
     (let n = code c in
      if 192 \<le> n \<and> n \<le> 197 then CHR ''A''
      else if n = 199 then CHR ''C''
      else if 200 \<le> n \<and> n \<le> 203 then CHR ''E''
      else if 204 \<le> n \<and> n \<le> 207 then CHR ''I''
      else if n = 209 then CHR ''N''
      else if 210 \<le> n \<and> n \<le> 214 then CHR ''O''
      else if 217 \<le> n \<and> n \<le> 220 then CHR ''U''
      else if n = 221 then CHR ''Y''
      else if 224 \<le> n \<and> n \<le> 229 then CHR ''a''
      else if n = 231 then CHR ''c''
      else if 232 \<le> n \<and> n \<le> 235 then CHR ''e''
      else if 236 \<le> n \<and> n \<le> 239 then CHR ''i''
      else if n = 241 then CHR ''n''
      else if 242 \<le> n \<and> n \<le> 246 then CHR ''o''
      else if 249 \<le> n \<and> n \<le> 252 then CHR ''u''
      else if n = 253 \<or> n = 255 then CHR ''y''
      else c)"

definition strip_accents :: "string \<Rightarrow> string" where
  "strip_accents text = map base_letter text"

definition is_space :: "char \<Rightarrow> bool" where
  \<comment> \<open>the white space of \<^verbatim>\<open>str.strip\<close>: U+0009..U+000D, U+001C..U+0020, U+0085, U+00A0\<close>
  "is_space c =
     ((9 \<le> code c \<and> code c \<le> 13) \<or> (28 \<le> code c \<and> code c \<le> 32)
      \<or> code c = 133 \<or> code c = 160)"

definition strip :: "string \<Rightarrow> string" where
  "strip s = rev (dropWhile is_space (rev (dropWhile is_space s)))"

definition is_linebreak :: "char \<Rightarrow> bool" where
  \<comment> \<open>the line boundaries of \<^verbatim>\<open>str.splitlines\<close> other than CR: LF, VT, FF, FS, GS,
      RS and NEL\<close>
  "is_linebreak c =
     (code c = 10 \<or> code c = 11 \<or> code c = 12 \<or> code c = 28 \<or> code c = 29
      \<or> code c = 30 \<or> code c = 133)"

fun split_from :: "string \<Rightarrow> string \<Rightarrow> string list" where
  "split_from cur [] = (if cur = [] then [] else [cur])"
| "split_from cur (c # cs) =
     (if code c = 13 then
        (case cs of
           d # ds \<Rightarrow> if code d = 10 then cur # split_from [] ds else cur # split_from [] cs
         | [] \<Rightarrow> cur # split_from [] cs)
      else if is_linebreak c then cur # split_from [] cs
      else split_from (cur @ [c]) cs)"

definition splitlines :: "string \<Rightarrow> string list" where
  "splitlines s = split_from [] s"

definition is_decimal :: "char \<Rightarrow> bool" where
  "is_decimal c = (48 \<le> code c \<and> code c \<le> 57)"

definition isdigit :: "string \<Rightarrow> bool" where
  \<comment> \<open>\<^verbatim>\<open>str.isdigit\<close>: not empty and every character a digit; the superscripts
      U+00B2, U+00B3 and U+00B9 are digits that are not decimal\<close>
  "isdigit s =
     (s \<noteq> [] \<and> list_all (\<lambda>c. is_decimal c \<or> code c = 178 \<or> code c = 179 \<or> code c = 185) s)"

fun digits_ok :: "string \<Rightarrow> bool" where
  "digits_ok [] = False"
| "digits_ok [c] = is_decimal c"
| "digits_ok (c # d # cs) =
     (is_decimal c \<and> (if d = CHR ''_'' then digits_ok cs else digits_ok (d # cs)))"

definition digits_value :: "string \<Rightarrow> int" where
  "digits_value ds = fold (\<lambda>c n. 10 * n + (int (code c) - 48)) ds 0"

definition py_int :: "string \<Rightarrow> int option" where
  \<comment> \<open>\<^verbatim>\<open>int(s)\<close>: white space around, an optional sign, decimal digits with single
      underscores between them; \<^const>\<open>None\<close> is ValueError\<close>
  "py_int s =
     (let t = strip s;
          neg = (t \<noteq> [] \<and> hd t = CHR ''-'');
          body = (if t \<noteq> [] \<and> (hd t = CHR ''-'' \<or> hd t = CHR ''+'') then tl t else t)
      in if digits_ok body
         then Some ((if neg then - 1 else 1) * digits_value (filter (\<lambda>c. c \<noteq> CHR ''_'') body))
         else None)"

fun replace_from :: "string \<Rightarrow> string \<Rightarrow> string \<Rightarrow> string" where
  "replace_from old new [] = []"
| "replace_from old new (c # cs) =
     (if take (length old) (c # cs) = old
      then new @ replace_from old new (drop (length old - 1) cs)
      else c # replace_from old new cs)"

definition replace :: "string \<Rightarrow> string \<Rightarrow> string \<Rightarrow> string" where
  \<comment> \<open>\<^verbatim>\<open>s.replace(old, new)\<close>: the occurrences of \<open>old\<close> found scanning from the left,
      each search starting after the previous occurrence\<close>
  "replace s old new =
     (if old = [] then new @ concat (map (\<lambda>c. c # new) s) else replace_from old new s)"

section \<open>Regular expressions of the protocol patterns\<close>

text \<open>
  The protocol patterns use literals, character classes, the optional item \<^verbatim>\<open>?\<close>,
  non-capturing groups with alternatives and the word boundary \<^verbatim>\<open>\b\<close>. A pattern is
  kept as its syntax tree. \<open>ends r s i\<close> lists the positions where a match of \<open>r\<close>
  that starts at position \<open>i\<close> of \<open>s\<close> can end, in the order in which the backtracking
  matcher tries them, so that its head is the match Python reports.
\<close>

datatype rx =
    Lit string
  | Cls string
  | WordB
  | Opt rx
  | Seq "rx list"
  | Alt "rx list"

definition is_word :: "char \<Rightarrow> bool" where
  \<comment> \<open>\<^verbatim>\<open>\w\<close> on \<^verbatim>\<open>str\<close>: alphanumeric code points and the underscore\<close>
  "is_word c =
     (let n = code c in
      (48 \<le> n \<and> n \<le> 57) \<or> (65 \<le> n \<and> n \<le> 90) \<or> n = 95 \<or> (97 \<le> n \<and> n \<le> 122)
      \<or> n = 170 \<or> n = 178 \<or> n = 179 \<or> n = 181 \<or> n = 185 \<or> n = 186
      \<or> (188 \<le> n \<and> n \<le> 190) \<or> (192 \<le> n \<and> n \<le> 214) \<or> (216 \<le> n \<and> n \<le> 246)
      \<or> (248 \<le> n \<and> n \<le> 255))"

definition word_boundary :: "string \<Rightarrow> nat \<Rightarrow> bool" where
  "word_boundary s i =
     ((0 < i \<and> i \<le> length s \<and> is_word (s ! (i - 1))) \<noteq> (i < length s \<and> is_word (s ! i)))"

fun ends :: "rx \<Rightarrow> string \<Rightarrow> nat \<Rightarrow> nat list" where
  "ends (Lit l) s i = (if take (length l) (drop i s) = l then [i + length l] else [])"
| "ends (Cls cs) s i = (if i < length s \<and> s ! i \<in> set cs then [Suc i] else [])"
| "ends WordB s i = (if word_boundary s i then [i] else [])"
| "ends (Opt r) s i = ends r s i @ [i]"
| "ends (Seq rs) s i = fold (\<lambda>r js. concat (map (ends r s) js)) rs [i]"
| "ends (Alt rs) s i = concat (map (\<lambda>r. ends r s i) rs)"

definition search :: "rx \<Rightarrow> string \<Rightarrow> bool" where
  \<comment> \<open>\<^verbatim>\<open>re.search(p, s)\<close> as a truth value: a match starts somewhere in \<open>s\<close>\<close>
  "search p s = list_ex (\<lambda>i. ends p s i \<noteq> []) [0..<Suc (length s)]"

function finditer_from :: "rx \<Rightarrow> string \<Rightarrow> nat \<Rightarrow> string list" where
  "finditer_from p s pos =
     (if length s < pos then []
      else (case ends p s pos of
              [] \<Rightarrow> finditer_from p s (Suc pos)
            | j # _ \<Rightarrow>
                take (j - pos) (drop pos s)
                  # finditer_from p s (if pos < j then j else Suc pos)))"
  by pat_completeness auto
termination
  by (relation "measure (\<lambda>(p, s, pos). Suc (length s) - pos)") auto

definition finditer :: "rx \<Rightarrow> string \<Rightarrow> string list" where
  \<comment> \<open>\<^verbatim>\<open>[m.group() for m in re.finditer(p, s)]\<close>\<close>
  "finditer p s = finditer_from p s 0"

definition word_pat :: "string \<Rightarrow> rx" where
  \<comment> \<open>\<^verbatim>\<open>\bTEXT\b\<close>\<close>
  "word_pat l = Seq [WordB, Lit l, WordB]"

definition tail_pat :: "string \<Rightarrow> rx" where
  \<comment> \<open>\<^verbatim>\<open>TEXT\b\<close>\<close>
  "tail_pat l = Seq [Lit l, WordB]"

definition SALUDOS :: "rx list" where
  "SALUDOS =
     [ word_pat ''hola'',
       Seq [WordB, Lit ''buen'', Cls ''oa'', Opt (Lit ''s''), WordB],
       word_pat ''buenos dias'',
       word_pat ''buenas tardes'',
       word_pat ''buenas noches'',
       word_pat ''feliz dia'',
       word_pat ''feliz jornada'',
       Seq [WordB, Lit ''estimad'', Cls ''ao'', Opt (Lit ''s''), WordB],
       word_pat ''saludos cordiales'',
       Seq [WordB, Lit ''bienvenid'', Cls ''oa'', Opt (Lit ''s''), WordB],
       word_pat ''gracias por llamar'',
       word_pat ''gracias por contactar'',
       word_pat ''gracias por comunicarse'',
       word_pat ''gracias por elegirnos'',
       word_pat ''gracias por su preferencia'',
       word_pat ''les saluda'',
       word_pat ''esta es la linea de'',
       word_pat (''l'' @ [CHR 0xED] @ ''nea de atencion''),
       word_pat ''es un placer atenderle'',
       word_pat ''mucho gusto en atenderle'',
       word_pat ''en que puedo ayudarle'',
       word_pat ''como puedo ayudarle'',
       word_pat ''en que le podemos ayudar'',
       Seq [WordB, Opt (Lit [CHR 0xBF]), Lit ''en que puedo asistirle'', WordB],
       Seq [WordB, Opt (Lit [CHR 0xBF]), Lit ''en que le puedo servir'', WordB],
       word_pat ''que tal'',
       word_pat (''qu'' @ [CHR 0xE9] @ '' tal''),
       word_pat ''holas'' ]"

definition su_doc :: rx where
  \<comment> \<open>\<^verbatim>\<open> su (?:numero de )?\<close>\<close>
  "su_doc = Seq [Lit '' su '', Opt (Lit ''numero de '')]"

definition darme :: rx where
  \<comment> \<open>\<^verbatim>\<open>(?:darme|facilitarme|proporcionarme)\<close>\<close>
  "darme = Alt [Lit ''darme'', Lit ''facilitarme'', Lit ''proporcionarme'']"

definition ID_PATTERNS :: "rx list" where
  "ID_PATTERNS =
     [ word_pat ''numero de documento'',
       word_pat ''numero de cedula'',
       word_pat ''dni'',
       word_pat ''ci'',
       word_pat ''documento de identidad'',
       word_pat ''numero de cuenta'',
       word_pat ''numero de cliente'',
       word_pat ''codigo de cliente'',
       word_pat ''referencia de cliente'',
       word_pat ''codigo de usuario'',
       word_pat ''numero de orden'',
       word_pat ''nombre completo'',
       word_pat ''nombre y apellido'',
       word_pat ''apellido'',
       word_pat ''fecha de nacimiento'',
       word_pat ''numero de telefono'',
       word_pat ''telefono celular'',
       word_pat ''whatsapp'',
       Seq [WordB, Lit ''correo electr'', Cls (''o'' @ [CHR 0xF3]), Lit ''nico'', WordB],
       word_pat ''direccion'',
       Seq [WordB, Lit ''puede '', darme, su_doc,
            Alt [Lit ''documento'', Lit ''cedula'', Lit ''dni'', Lit ''ci'',
                 Lit ''numero de cliente''], WordB],
       Seq [WordB, Lit ''podria '', darme, su_doc,
            Alt [Lit ''documento'', Lit ''cedula'', Lit ''dni'', Lit ''ci'',
                 Lit ''numero de cliente''], WordB],
       Seq [WordB, Lit ''confirmar'', su_doc,
            Alt [Lit ''documento'', Lit ''cedula'', Lit ''dni'', Lit ''ci''], WordB],
       word_pat ''para verificar su identidad'',
       word_pat ''para confirmar su cuenta'' ]"

definition PALABRAS_RUDAS :: "rx list" where
  "PALABRAS_RUDAS =
     [ word_pat ''tonto'', word_pat ''idiota'',
       Seq [WordB, Lit ''est'', Cls ([CHR 0xFA] @ ''u''), Lit ''pido'', WordB],
       Seq [WordB, Lit ''imb'', Cls ([CHR 0xE9] @ ''e''), Lit ''cil'', WordB],
       word_pat ''pendejo'', word_pat ''tarado'', word_pat ''gilipollas'', word_pat ''maldito'',
       Seq [WordB, Lit ''cabr'', Cls (''o'' @ [CHR 0xF3]), Lit ''n'', WordB],
       Seq [WordB, Lit ''co'', Cls ([CHR 0xF1] @ ''n''), Lit ''o'', WordB],
       word_pat ''mierda'',
       Seq [WordB, Lit ''pat'', Cls ([CHR 0xE9] @ ''e''), Lit ''tico'', WordB],
       word_pat ''despreciable'', word_pat ''estupidez'',
       word_pat ''mediocre'', word_pat ''absurdo'', word_pat ''atroz'', word_pat ''horrible'',
       word_pat ''desastroso'',
       Seq [WordB, Lit ''p'', Cls (''e'' @ [CHR 0xE9]), Lit ''simo'', WordB],
       word_pat ''defectuoso'',
       word_pat ''deficiente'', word_pat ''ineficiente'', word_pat ''insuficiente'',
       word_pat ''incompetente'', word_pat ''fraudulento'', word_pat ''terrible'',
       word_pat ''lamentable'', word_pat ''repugnante'', word_pat ''vergonzoso'' ]"

definition DESPEDIDAS :: "rx list" where
  "DESPEDIDAS =
     [ tail_pat ''gracias por su tiempo'',
       tail_pat ''gracias por llamar al servicio de atencion al cliente'',
       tail_pat ''gracias por contactar con nosotros'',
       tail_pat ''gracias por comunicarse con nosotros'',
       tail_pat ''gracias por elegirnos'',
       tail_pat ''muchas gracias'',
       tail_pat ''muchas gracias por su preferencia'',
       tail_pat ''ha sido un placer atenderle'',
       tail_pat ''estamos a su disposicion'',
       tail_pat ''quedo a sus ordenes'',
       tail_pat ''quedo a su disposicion'',
       tail_pat ''no dude en contactarnos'',
       tail_pat ''hasta luego'',
       tail_pat ''hasta pronto'',
       tail_pat ''hasta la proxima'',
       tail_pat ''hasta manana'',
       tail_pat (''hasta ma'' @ [CHR 0xF1] @ ''ana''),
       tail_pat ''nos vemos'',
       tail_pat ''nos mantenemos en contacto'',
       tail_pat ''que tenga un buen dia'',
       tail_pat ''que tenga un excelente dia'',
       tail_pat ''le deseamos un buen dia'',
       tail_pat ''que disfrute el resto de su dia'',
       tail_pat ''que pase un buen dia'',
       tail_pat ''feliz dia'',
       tail_pat ''adios'',
       tail_pat (''adi'' @ [CHR 0xF3] @ ''s'') ]"

section \<open>Protocol classifier (analysis.py, analiza\_protocolo)\<close>

definition text_lines :: "string \<Rightarrow> string list" where
  \<comment> \<open>\<^verbatim>\<open>[l.strip() for l in clean.splitlines() if l.strip()]\<close>\<close>
  "text_lines clean = map strip (filter (\<lambda>l. strip l \<noteq> []) (splitlines clean))"

definition analiza_protocolo :: "string \<Rightarrow> bool \<times> bool \<times> string list \<times> bool" where
  "analiza_protocolo text =
     (let clean = strip_accents (lower text);
          lines = text_lines clean;
          first = (if lines \<noteq> [] then hd lines else []);
          last_line = (if lines \<noteq> [] then last lines else []);
          saludo_ok = list_ex (\<lambda>p. search p first) SALUDOS;
          id_ok = list_ex (\<lambda>p. search p clean) ID_PATTERNS;
          rudas = concat (map (\<lambda>p. finditer p clean) PALABRAS_RUDAS);
          desp_ok = list_ex (\<lambda>p. search p last_line) DESPEDIDAS
      in (saludo_ok, id_ok, rudas, desp_ok))"

section \<open>Lexicon persistence (interactive.py, save\_lexicon)\<close>

text \<open>
  The lexicon document is the value \<^verbatim>\<open>json.load\<close> returns. An object is a Python
  dictionary, kept as the list of its fields in order. Storing under a key that is
  present replaces the value in place, storing under a new key appends the field, and
  storing into a document that is not an object raises TypeError.
\<close>

datatype json =
    JNull
  | JBool bool
  | JInt int
  | JStr string
  | JArr "json list"
  | JObj "(string \<times> json) list"

datatype error = ValueError | EOFError | TypeError

definition setitem :: "('k \<times> 'v) list \<Rightarrow> 'k \<Rightarrow> 'v \<Rightarrow> ('k \<times> 'v) list" where
  \<comment> \<open>\<^verbatim>\<open>d[k] = v\<close>\<close>
  "setitem d k v =
     (if map_of d k \<noteq> None then map (\<lambda>(k', v'). if k' = k then (k', v) else (k', v')) d
      else d @ [(k, v)])"

definition dict_json :: "dict \<Rightarrow> json" where
  "dict_json d = JObj (map (\<lambda>(k, v). (k, JInt v)) d)"

definition save_lexicon :: "dict \<Rightarrow> dict \<Rightarrow> dict \<Rightarrow> json \<Rightarrow> error + json" where
  "save_lexicon positivos negativos neutros doc =
     (case doc of
        JObj data \<Rightarrow>
          Inr (JObj (setitem (setitem (setitem data ''positivos'' (dict_json positivos))
                                ''negativos'' (dict_json negativos))
                       ''neutros'' (dict_json neutros)))
      | _ \<Rightarrow> Inl TypeError)"

definition category_fields :: "string set" where
  \<comment> \<open>the three keys \<^verbatim>\<open>save_lexicon\<close> assigns\<close>
  "category_fields = {''positivos'', ''negativos'', ''neutros''}"

section \<open>Candidate suggestions (interactive.py, suggest\_candidates)\<close>

text \<open>
  \<^verbatim>\<open>Levenshtein.distance\<close> is the edit distance with insertions, deletions and
  substitutions of cost one, and \<^verbatim>\<open>Levenshtein.hamming\<close> counts the positions at
  which two strings of the same length differ. \<^verbatim>\<open>float('inf')\<close> is \<open>\<infinity>\<close>.
\<close>

fun levenshtein :: "string \<Rightarrow> string \<Rightarrow> nat" where
  "levenshtein [] ys = length ys"
| "levenshtein xs [] = length xs"
| "levenshtein (x # xs) (y # ys) =
     (if x = y then levenshtein xs ys
      else 1 + min (levenshtein xs (y # ys)) (min (levenshtein (x # xs) ys) (levenshtein xs ys)))"

definition hamming :: "string \<Rightarrow> string \<Rightarrow> nat" where
  "hamming a b = length (filter (\<lambda>(x, y). x \<noteq> y) (zip a b))"

type_synonym candidate = "string \<times> (nat \<times> enat)"

definition distances :: "string \<Rightarrow> string \<Rightarrow> nat \<times> enat" where
  "distances word k =
     (levenshtein word k, if length word = length k then enat (hamming word k) else \<infinity>)"

definition slice_to :: "'a list \<Rightarrow> int \<Rightarrow> 'a list" where
  \<comment> \<open>\<^verbatim>\<open>xs[:n]\<close>; a negative bound counts from the end\<close>
  "slice_to xs n = (if n < 0 then take (nat (int (length xs) + n)) xs else take (nat n) xs)"

definition suggest_candidates :: "string \<Rightarrow> string list \<Rightarrow> int \<Rightarrow> candidate list" where
  "suggest_candidates word lex_keys max_suggestions =
     (let dists = map (\<lambda>k. (k, distances word k)) lex_keys
      in slice_to (sort_key (\<lambda>x. (fst (snd x), snd (snd x))) dists) max_suggestions)"

section \<open>Undefined-word resolver (interactive.py, prompt\_user)\<close>

text \<open>
  The state the loop mutates: the queue \<^verbatim>\<open>undefined\<close>, the three dictionaries and
  the content of the transcript file at \<^verbatim>\<open>path_txt\<close>. The operator's answers are the
  list of lines still to be read; each \<^verbatim>\<open>input()\<close> takes the head, and reading from
  an exhausted list is the end of input, which raises EOFError. Printing is left out.
\<close>

record resolver =
  q_undefined :: "string list"
  d_positivos :: dict
  d_negativos :: dict
  d_neutros :: dict
  f_txt :: string

datatype outcome = Continue | Break | Raise error

type_synonym step = "outcome \<times> resolver \<times> string list"

definition pop :: "'a list \<Rightarrow> nat \<Rightarrow> 'a list" where
  \<comment> \<open>\<^verbatim>\<open>xs.pop(idx)\<close> for an index in range\<close>
  "pop xs idx = take idx xs @ drop (Suc idx) xs"

definition classify :: "nat \<Rightarrow> string \<Rightarrow> resolver \<Rightarrow> string list \<Rightarrow> step" where
  "classify idx word s ins =
     (case ins of
        [] \<Rightarrow> (Raise EOFError, s, [])
      | l # ins' \<Rightarrow>
          (let cat = lower (strip l) in
           if cat = ''p'' then
             (case ins' of
                [] \<Rightarrow> (Raise EOFError, s, [])
              | l' # ins'' \<Rightarrow>
                  (case py_int (strip l') of
                     None \<Rightarrow> (Continue, s, ins'')
                   | Some p \<Rightarrow>
                       if 1 \<le> p \<and> p \<le> 3 \<and> \<not> has_key (d_positivos s) word
                       then (Continue,
                             s\<lparr>d_positivos := setitem (d_positivos s) word p,
                               q_undefined := pop (q_undefined s) idx\<rparr>, ins'')
                       else (Continue, s, ins'')))
           else if cat = ''n'' then
             (case ins' of
                [] \<Rightarrow> (Raise EOFError, s, [])
              | l' # ins'' \<Rightarrow>
                  (case py_int (strip l') of
                     None \<Rightarrow> (Continue, s, ins'')
                   | Some n \<Rightarrow>
                       if - 3 \<le> n \<and> n \<le> - 1 \<and> \<not> has_key (d_negativos s) word
                       then (Continue,
                             s\<lparr>d_negativos := setitem (d_negativos s) word n,
                               q_undefined := pop (q_undefined s) idx\<rparr>, ins'')
                       else (Continue, s, ins'')))
           else if cat = ''t'' then
             (if \<not> has_key (d_neutros s) word
              then (Continue,
                    s\<lparr>d_neutros := setitem (d_neutros s) word 0,
                      q_undefined := pop (q_undefined s) idx\<rparr>, ins')
              else (Continue, s, ins'))
           else (Continue, s, ins')))"

definition suggest :: "string list \<Rightarrow> nat \<Rightarrow> string \<Rightarrow> string \<Rightarrow> resolver \<Rightarrow> string list \<Rightarrow> step" where
  "suggest lex_keys idx raw word s ins =
     (let cands = suggest_candidates word lex_keys 5 in
      case ins of
        [] \<Rightarrow> (Raise EOFError, s, [])
      | l # ins' \<Rightarrow>
          (let choice = strip l in
           if isdigit choice then
             (case py_int choice of
                None \<Rightarrow> (Raise ValueError, s, ins')
              | Some n \<Rightarrow>
                  if 1 \<le> n \<and> n \<le> int (length cands)
                  then (let cand = fst (cands ! nat (n - 1)) in
                        (Continue,
                         s\<lparr>f_txt := replace (f_txt s) raw cand,
                           q_undefined := pop (q_undefined s) idx\<rparr>, ins'))
                  else (Continue, s, ins'))
           else (Continue, s, ins')))"

definition iteration :: "string list \<Rightarrow> resolver \<Rightarrow> string list \<Rightarrow> step" where
  \<comment> \<open>one pass through the body of \<^verbatim>\<open>while undefined:\<close>\<close>
  "iteration lex_keys s ins =
     (case ins of
        [] \<Rightarrow> (Raise EOFError, s, [])
      | l # ins' \<Rightarrow>
          (let sel = strip l in
           if sel = [] then (Break, s, ins')
           else if \<not> isdigit sel then (Continue, s, ins')
           else
             (case py_int sel of
                None \<Rightarrow> (Raise ValueError, s, ins')
              | Some n \<Rightarrow>
                  if \<not> (1 \<le> n \<and> n \<le> int (length (q_undefined s))) then (Continue, s, ins')
                  else
                    (let idx = nat (n - 1);
                         raw = q_undefined s ! idx;
                         word = strip_accents (lower raw)
                     in case ins' of
                          [] \<Rightarrow> (Raise EOFError, s, [])
                        | a # ins'' \<Rightarrow>
                            if lower (strip a) = ''s'' then classify idx word s ins''
                            else suggest lex_keys idx raw word s ins''))))"

function prompt_loop :: "string list \<Rightarrow> resolver \<Rightarrow> string list \<Rightarrow> error option \<times> resolver \<times> string list" where
  "prompt_loop lex_keys s ins =
     (if q_undefined s = [] then (None, s, ins)
      else (case iteration lex_keys s ins of
              (Break, s', ins') \<Rightarrow> (None, s', ins')
            | (Raise err, s', ins') \<Rightarrow> (Some err, s', ins')
            | (Continue, s', ins') \<Rightarrow> prompt_loop lex_keys s' ins'))"
  by pat_completeness auto
termination
proof (relation "measure (\<lambda>(lex_keys, s, ins). length ins)", goal_cases)
  case 1
  show ?case by simp
next
  case (2 lex_keys s ins x1 x2 x1a x2a)
  have cl: "\<And>idx word t js o' t' js'.
      classify idx word t js = (o', t', js') \<Longrightarrow> length js' \<le> length js"
    by (auto simp: classify_def Let_def split: list.splits option.splits if_splits)
  have sg: "\<And>idx raw word t js o' t' js'.
      suggest lex_keys idx raw word t js = (o', t', js') \<Longrightarrow> length js' \<le> length js"
    by (auto simp: suggest_def Let_def split: list.splits option.splits if_splits)
  have "iteration lex_keys s ins = (Continue, x1a, x2a)"
    using 2 by simp
  then have "length x2a < length ins"
    by (auto simp: iteration_def Let_def split: list.splits option.splits if_splits
          dest!: cl sg)
  then show ?case by simp
qed

definition prompt_user ::
  "string list \<Rightarrow> dict \<Rightarrow> dict \<Rightarrow> dict \<Rightarrow> string \<Rightarrow> string list
     \<Rightarrow> error option \<times> resolver \<times> string list" where
  "prompt_user undefined_words positivos negativos neutros txt ins =
     (let lex_keys = keys positivos @ keys negativos @ keys neutros
      in prompt_loop lex_keys
           \<lparr>q_undefined = undefined_words, d_positivos = positivos, d_negativos = negativos,
            d_neutros = neutros, f_txt = txt\<rparr> ins)"

text \<open>
  Two notions the properties of the resolver are stated with: the line typed at the
  selection prompt names the queue entry \<open>idx\<close> (counted from 0), and a string occurs
  in another one.
\<close>

definition valid_selection :: "resolver \<Rightarrow> string \<Rightarrow> nat \<Rightarrow> bool" where
  "valid_selection s l idx =
     (isdigit (strip l) \<and> py_int (strip l) = Some (int idx + 1) \<and> idx < length (q_undefined s))"


section \<open>The scoring loop in closed form\<close>

definition is_pos :: "dict \<Rightarrow> string \<Rightarrow> bool" where
  "is_pos positivos w = has_key positivos w"

definition is_neg :: "dict \<Rightarrow> dict \<Rightarrow> string \<Rightarrow> bool" where
  "is_neg positivos negativos w = (\<not> has_key positivos w \<and> has_key negativos w)"

definition is_neut :: "dict \<Rightarrow> dict \<Rightarrow> dict \<Rightarrow> string \<Rightarrow> bool" where
  "is_neut positivos negativos neutros w =
     (\<not> has_key positivos w \<and> \<not> has_key negativos w \<and> has_key neutros w)"

lemma score_loop_closed:
  "score_loop P N U ws (t, pl, nl, ul) =
     (t + sum_list (map (weight P) (filter (is_pos P) ws))
        + sum_list (map (weight N) (filter (is_neg P N) ws)),
      pl @ map (\<lambda>w. (w, weight P w)) (filter (is_pos P) ws),
      nl @ map (\<lambda>w. (w, weight N w)) (filter (is_neg P N) ws),
      ul @ filter (is_neut P N U) ws)"
proof (induction ws arbitrary: t pl nl ul)
  case Nil
  show ?case by simp
next
  case (Cons w ws)
  show ?case
    by (cases "map_of P w"; cases "map_of N w")
       (simp_all add: score_word_def Cons.IH is_pos_def is_neg_def is_neut_def
          has_key_def weight_def)
qed

lemma analiza_closed:
  "analiza_sentimiento ws P N U =
     \<lparr> total = sum_list (map (weight P) (filter (is_pos P) ws))
                + sum_list (map (weight N) (filter (is_neg P N) ws)),
       pos_count = length (filter (is_pos P) ws),
       pos_words = filter (is_pos P) ws,
       top_pos_words = snd (top_pos (map (\<lambda>w. (w, weight P w)) (filter (is_pos P) ws))),
       top_pos_weight = fst (top_pos (map (\<lambda>w. (w, weight P w)) (filter (is_pos P) ws))),
       neg_count = length (filter (is_neg P N) ws),
       neg_words = filter (is_neg P N) ws,
       top_neg_words = snd (top_neg (map (\<lambda>w. (w, weight N w)) (filter (is_neg P N) ws))),
       top_neg_weight = fst (top_neg (map (\<lambda>w. (w, weight N w)) (filter (is_neg P N) ws))),
       neut_count = length (filter (is_neut P N U) ws),
       neut_words = filter (is_neut P N U) ws \<rparr>"
  by (simp add: analiza_sentimiento_def score_loop_closed comp_def)

lemma neutral_hits_dropped:
  "filter (is_pos P) (filter (\<lambda>w. w \<notin> set (filter (is_neut P N U) ws)) ws) = filter (is_pos P) ws"
  "filter (is_neg P N) (filter (\<lambda>w. w \<notin> set (filter (is_neut P N U) ws)) ws) = filter (is_neg P N) ws"
  by (auto simp: is_pos_def is_neg_def is_neut_def intro!: filter_cong)

section \<open>Properties of the sentiment scorer\<close>

text \<open>
  C3, the clause on Neutral as the claim words it: a token that is a key of Neutral
  changes the total when it is a key of Positive as well, since the Positive lookup
  comes first.
\<close>

theorem neutral_key_changes_total_counterexample:
  "has_key [(''raro'', 0)] ''raro''
   \<and> total (analiza_sentimiento [''raro''] [(''raro'', 2)] [] [(''raro'', 0)]) = 2
   \<and> total (analiza_sentimiento [] [(''raro'', 2)] [] [(''raro'', 0)]) = 0"
  by (simp add: analiza_closed is_pos_def is_neg_def has_key_def weight_def)

text \<open>
  C3, as the code has it. For every token sequence and every lexicon the total is the
  sum, over the tokens that are keys of Positive, of their Positive weights plus the
  sum, over the tokens that are keys of Negative and not of Positive, of their Negative
  weights; these tokens are the positive and the negative hits the scorer returns. A
  token that is a key of Neutral and of neither Positive nor Negative never changes the
  total, wherever it stands in the sequence; the total is the same with all neutral
  hits taken out and for every neutral dictionary. For the empty token sequence the
  total, the counts and the top weights are zero and every list is empty.
\<close>

theorem scorer_total_of_tokens:
  fixes ws :: "string list" and P N U :: dict
  defines "r \<equiv> analiza_sentimiento ws P N U"
  shows "total r = sum_list (map (weight P) (filter (has_key P) ws))
                   + sum_list (map (weight N) (filter (\<lambda>w. \<not> has_key P w \<and> has_key N w) ws))
       \<and> pos_words r = filter (has_key P) ws
       \<and> neg_words r = filter (\<lambda>w. \<not> has_key P w \<and> has_key N w) ws
       \<and> neut_words r = filter (\<lambda>w. \<not> has_key P w \<and> \<not> has_key N w \<and> has_key U w) ws
       \<and> total r = sum_list (map (weight P) (pos_words r)) + sum_list (map (weight N) (neg_words r))
       \<and> (has_key U w \<and> \<not> has_key P w \<and> \<not> has_key N w \<longrightarrow>
            total (analiza_sentimiento (xs @ w # ys) P N U)
              = total (analiza_sentimiento (xs @ ys) P N U))
       \<and> total (analiza_sentimiento (filter (\<lambda>w. w \<notin> set (neut_words r)) ws) P N U) = total r
       \<and> total (analiza_sentimiento ws P N U') = total r
       \<and> analiza_sentimiento [] P N U =
           \<lparr> total = 0, pos_count = 0, pos_words = [], top_pos_words = [], top_pos_weight = 0,
             neg_count = 0, neg_words = [], top_neg_words = [], top_neg_weight = 0,
             neut_count = 0, neut_words = [] \<rparr>"
proof -
  have t: "total r = sum_list (map (weight P) (filter (has_key P) ws))
                   + sum_list (map (weight N) (filter (\<lambda>w. \<not> has_key P w \<and> has_key N w) ws))"
    and p: "pos_words r = filter (has_key P) ws"
    and n: "neg_words r = filter (\<lambda>w. \<not> has_key P w \<and> has_key N w) ws"
    and u: "neut_words r = filter (\<lambda>w. \<not> has_key P w \<and> \<not> has_key N w \<and> has_key U w) ws"
    unfolding r_def analiza_closed sentiment.select_convs is_pos_def is_neg_def is_neut_def
    by (rule refl)+
  have h: "total r = sum_list (map (weight P) (pos_words r)) + sum_list (map (weight N) (neg_words r))"
    unfolding p n by (rule t)
  have i: "has_key U w \<and> \<not> has_key P w \<and> \<not> has_key N w \<longrightarrow>
            total (analiza_sentimiento (xs @ w # ys) P N U)
              = total (analiza_sentimiento (xs @ ys) P N U)"
    by (simp add: analiza_closed is_pos_def is_neg_def)
  have d: "total (analiza_sentimiento (filter (\<lambda>w. w \<notin> set (neut_words r)) ws) P N U) = total r"
    unfolding r_def by (simp only: analiza_closed sentiment.select_convs neutral_hits_dropped)
  have f: "total (analiza_sentimiento ws P N U') = total r"
    unfolding r_def by (simp add: analiza_closed)
  have e: "analiza_sentimiento [] P N U =
           \<lparr> total = 0, pos_count = 0, pos_words = [], top_pos_words = [], top_pos_weight = 0,
             neg_count = 0, neg_words = [], top_neg_words = [], top_neg_weight = 0,
             neut_count = 0, neut_words = [] \<rparr>"
    by (simp add: analiza_closed top_pos_def top_neg_def)
  from t p n u h i d f e show ?thesis
    by blast
qed

theorem scorer_total_of_tokens_witness:
  "has_key [(''el'', 0), (''fue'', 0)] ''fue''
   \<and> \<not> has_key [(''excelente'', 3)] ''fue'' \<and> \<not> has_key [(''terrible'', - 3), (''malo'', - 1)] ''fue''
   \<and> total (analiza_sentimiento ([''el'', ''servicio''] @ ''fue'' # [''excelente'', ''y'', ''malo''])
        [(''excelente'', 3)] [(''terrible'', - 3), (''malo'', - 1)] [(''el'', 0), (''fue'', 0)]) = 2
   \<and> total (analiza_sentimiento ([''el'', ''servicio''] @ [''excelente'', ''y'', ''malo''])
        [(''excelente'', 3)] [(''terrible'', - 3), (''malo'', - 1)] [(''el'', 0), (''fue'', 0)]) = 2
   \<and> analiza_sentimiento [''el'', ''servicio'', ''fue'', ''excelente'', ''y'', ''terrible'']
        [(''excelente'', 3)] [(''terrible'', - 3)] []
      = \<lparr> total = 0, pos_count = 1, pos_words = [''excelente''], top_pos_words = [''excelente''],
          top_pos_weight = 3, neg_count = 1, neg_words = [''terrible''],
          top_neg_words = [''terrible''], top_neg_weight = - 3, neut_count = 0, neut_words = [] \<rparr>"
proof -
  let ?P = "[(''excelente'', 3 :: int)]"
  let ?N = "[(''terrible'', - 3 :: int), (''malo'', - 1)]"
  let ?U = "[(''el'', 0 :: int), (''fue'', 0)]"
  have k: "has_key ?U ''fue'' \<and> \<not> has_key ?P ''fue'' \<and> \<not> has_key ?N ''fue''"
    by (simp add: has_key_def)
  have v: "total (analiza_sentimiento ([''el'', ''servicio''] @ [''excelente'', ''y'', ''malo''])
        ?P ?N ?U) = 2"
    by (simp add: analiza_closed is_pos_def is_neg_def has_key_def weight_def)
  have "total (analiza_sentimiento ([''el'', ''servicio''] @ ''fue'' # [''excelente'', ''y'', ''malo''])
        ?P ?N ?U)
      = total (analiza_sentimiento ([''el'', ''servicio''] @ [''excelente'', ''y'', ''malo'']) ?P ?N ?U)"
    using scorer_total_of_tokens [of "[]" ?P ?N ?U "''fue''" "[''el'', ''servicio'']"
        "[''excelente'', ''y'', ''malo'']"] k
    by blast
  with v have w: "total (analiza_sentimiento
        ([''el'', ''servicio''] @ ''fue'' # [''excelente'', ''y'', ''malo'']) ?P ?N ?U) = 2"
    by simp
  have s: "analiza_sentimiento [''el'', ''servicio'', ''fue'', ''excelente'', ''y'', ''terrible'']
        [(''excelente'', 3)] [(''terrible'', - 3)] []
      = \<lparr> total = 0, pos_count = 1, pos_words = [''excelente''], top_pos_words = [''excelente''],
          top_pos_weight = 3, neg_count = 1, neg_words = [''terrible''],
          top_neg_words = [''terrible''], top_neg_weight = - 3, neut_count = 0, neut_words = [] \<rparr>"
    by code_simp
  from k v w s show ?thesis
    by blast
qed

lemma top_pos_max:
  "top_pos (map (\<lambda>w. (w, f w)) ws) =
     (if ws = [] then (0, [])
      else (Max (f ` set ws), filter (\<lambda>w. f w = Max (f ` set ws)) ws))"
proof (cases ws)
  case Nil
  then show ?thesis by (simp add: top_pos_def)
next
  case (Cons a as)
  have m: "fold max (map f as) (f a) = Max (f ` set ws)"
    using Max.set_eq_fold [of "f a" "map f as"] Cons by simp
  have "map fst (filter (\<lambda>(w, p). p = m) (map (\<lambda>w. (w, f w)) ws)) = filter (\<lambda>w. f w = m) ws" for m
    by (induction ws) auto
  with m Cons show ?thesis
    by (simp add: top_pos_def comp_def)
qed

lemma top_neg_min:
  "top_neg (map (\<lambda>w. (w, f w)) ws) =
     (if ws = [] then (0, [])
      else (Min (f ` set ws), filter (\<lambda>w. f w = Min (f ` set ws)) ws))"
proof (cases ws)
  case Nil
  then show ?thesis by (simp add: top_neg_def)
next
  case (Cons a as)
  have m: "fold min (map f as) (f a) = Min (f ` set ws)"
    using Min.set_eq_fold [of "f a" "map f as"] Cons by simp
  have "map fst (filter (\<lambda>(w, p). p = m) (map (\<lambda>w. (w, f w)) ws)) = filter (\<lambda>w. f w = m) ws" for m
    by (induction ws) auto
  with m Cons show ?thesis
    by (simp add: top_neg_def comp_def)
qed

text \<open>
  C4. When there are positive hits, \<open>top_pos_weight\<close> is the largest weight among them
  and \<open>top_pos_words\<close> is the list of the positive hits with exactly that weight, ties
  and repetitions included; with no positive hit the weight is 0 and the list is empty.
  Likewise \<open>top_neg_weight\<close> is the smallest weight among the negative hits, or 0, and
  \<open>top_neg_words\<close> the negative hits at that weight.
\<close>

theorem scorer_extrema:
  fixes ws :: "string list" and P N U :: dict
  defines "r \<equiv> analiza_sentimiento ws P N U"
  shows "(pos_words r \<noteq> [] \<longrightarrow>
            top_pos_weight r = Max (weight P ` set (pos_words r))
            \<and> top_pos_words r = filter (\<lambda>w. weight P w = top_pos_weight r) (pos_words r))
       \<and> (pos_words r = [] \<longrightarrow> top_pos_weight r = 0 \<and> top_pos_words r = [])
       \<and> (neg_words r \<noteq> [] \<longrightarrow>
            top_neg_weight r = Min (weight N ` set (neg_words r))
            \<and> top_neg_words r = filter (\<lambda>w. weight N w = top_neg_weight r) (neg_words r))
       \<and> (neg_words r = [] \<longrightarrow> top_neg_weight r = 0 \<and> top_neg_words r = [])"
  unfolding r_def analiza_closed sentiment.select_convs top_pos_max top_neg_min
  by simp


theorem scorer_extrema_witness:
  "pos_words (analiza_sentimiento [''bueno'', ''malo'', ''genial'', ''excelente'', ''genial'']
       [(''bueno'', 2), (''excelente'', 3), (''genial'', 3)] [(''malo'', - 1)] []) \<noteq> []
   \<and> top_pos_weight (analiza_sentimiento [''bueno'', ''malo'', ''genial'', ''excelente'', ''genial'']
       [(''bueno'', 2), (''excelente'', 3), (''genial'', 3)] [(''malo'', - 1)] []) = 3
   \<and> top_pos_words (analiza_sentimiento [''bueno'', ''malo'', ''genial'', ''excelente'', ''genial'']
       [(''bueno'', 2), (''excelente'', 3), (''genial'', 3)] [(''malo'', - 1)] [])
       = [''genial'', ''excelente'', ''genial'']
   \<and> top_neg_weight (analiza_sentimiento [''bueno'', ''malo'', ''genial'', ''excelente'', ''genial'']
       [(''bueno'', 2), (''excelente'', 3), (''genial'', 3)] [(''malo'', - 1)] []) = - 1"
  using scorer_extrema [of "[''bueno'', ''malo'', ''genial'', ''excelente'', ''genial'']"
       "[(''bueno'', 2), (''excelente'', 3), (''genial'', 3)]" "[(''malo'', - 1)]" "[]"]
  by (simp add: analiza_closed is_pos_def is_neg_def is_neut_def has_key_def weight_def)


lemma count_filter_le:
  "count_list (filter A ws) w + count_list (filter B ws) w + count_list (filter C ws) w
     \<le> count_list ws w"
  if "\<And>x. \<not> (A x \<and> B x)" "\<And>x. \<not> (A x \<and> C x)" "\<And>x. \<not> (B x \<and> C x)"
  using that by (induction ws) auto

lemma count_filter_all: "A w \<Longrightarrow> count_list (filter A ws) w = count_list ws w"
  by (induction ws) auto

text \<open>
  C10. Each token occurrence is counted under at most one category, looked up in the
  order Positive, Negative, Neutral, whether or not the dictionaries are disjoint: the
  positive hits are the tokens in Positive, the negative hits the tokens in Negative
  and not in Positive, the neutral hits the tokens in Neutral and in neither of the
  others. A token in Positive is never counted as negative or neutral; a token in
  Negative is never counted as neutral, and one in Negative and Neutral that the
  earlier Positive lookup does not take is counted as negative at every occurrence.
\<close>

theorem scorer_precedence:
  fixes ws :: "string list" and P N U :: dict
  defines "r \<equiv> analiza_sentimiento ws P N U"
  shows "pos_words r = filter (has_key P) ws
       \<and> neg_words r = filter (\<lambda>w. \<not> has_key P w \<and> has_key N w) ws
       \<and> neut_words r = filter (\<lambda>w. \<not> has_key P w \<and> \<not> has_key N w \<and> has_key U w) ws
       \<and> pos_count r = length (pos_words r) \<and> neg_count r = length (neg_words r)
       \<and> neut_count r = length (neut_words r)
       \<and> count_list (pos_words r) w + count_list (neg_words r) w + count_list (neut_words r) w
            \<le> count_list ws w
       \<and> (has_key P w \<longrightarrow>
            count_list (pos_words r) w = count_list ws w
            \<and> w \<notin> set (neg_words r) \<and> w \<notin> set (neut_words r))
       \<and> (has_key N w \<longrightarrow> w \<notin> set (neut_words r))
       \<and> (\<not> has_key P w \<and> has_key N w \<and> has_key U w \<longrightarrow>
            count_list (neg_words r) w = count_list ws w
            \<and> w \<notin> set (pos_words r) \<and> w \<notin> set (neut_words r))"
proof -
  have p: "pos_words r = filter (has_key P) ws"
    and n: "neg_words r = filter (\<lambda>w. \<not> has_key P w \<and> has_key N w) ws"
    and u: "neut_words r = filter (\<lambda>w. \<not> has_key P w \<and> \<not> has_key N w \<and> has_key U w) ws"
    and c: "pos_count r = length (pos_words r)" "neg_count r = length (neg_words r)"
      "neut_count r = length (neut_words r)"
    unfolding r_def analiza_closed sentiment.select_convs is_pos_def is_neg_def is_neut_def
    by (rule refl)+
  have le: "count_list (pos_words r) w + count_list (neg_words r) w + count_list (neut_words r) w
      \<le> count_list ws w"
    unfolding p n u by (rule count_filter_le) auto
  have a: "has_key P w \<Longrightarrow> count_list (pos_words r) w = count_list ws w"
    unfolding p by (rule count_filter_all)
  have b: "\<not> has_key P w \<and> has_key N w \<Longrightarrow> count_list (neg_words r) w = count_list ws w"
    unfolding n by (rule count_filter_all)
  show ?thesis
    using p n u c le a b by simp
qed

theorem scorer_precedence_witness:
  "has_key [(''bien'', 1), (''raro'', 2)] ''raro''
   \<and> \<not> has_key [(''bien'', 1), (''raro'', 2)] ''mal''
   \<and> has_key [(''mal'', - 2), (''raro'', - 1)] ''mal''
   \<and> has_key [(''mal'', 0), (''raro'', 0)] ''mal''
   \<and> pos_words (analiza_sentimiento [''raro'', ''mal'', ''raro'']
        [(''bien'', 1), (''raro'', 2)] [(''mal'', - 2), (''raro'', - 1)] [(''mal'', 0), (''raro'', 0)])
       = [''raro'', ''raro'']
   \<and> neg_words (analiza_sentimiento [''raro'', ''mal'', ''raro'']
        [(''bien'', 1), (''raro'', 2)] [(''mal'', - 2), (''raro'', - 1)] [(''mal'', 0), (''raro'', 0)])
       = [''mal'']
   \<and> neut_words (analiza_sentimiento [''raro'', ''mal'', ''raro'']
        [(''bien'', 1), (''raro'', 2)] [(''mal'', - 2), (''raro'', - 1)] [(''mal'', 0), (''raro'', 0)])
       = []"
  using scorer_precedence [of "[''raro'', ''mal'', ''raro'']" "[(''bien'', 1), (''raro'', 2)]"
      "[(''mal'', - 2), (''raro'', - 1)]" "[(''mal'', 0), (''raro'', 0)]" "''mal''"]
  by (simp add: has_key_def)

section \<open>Properties of the undefined-word list\<close>

text \<open>
  C6. The list of undefined words has no repetition and is sorted in the lexicographic
  order of strings; a token of the sequence is in it exactly when it is a key of none
  of Positive, Negative and Neutral, so a word of any category is never listed.
\<close>

theorem undefined_sorted_unique:
  fixes ws :: "string list" and P N U :: dict
  defines "r \<equiv> find_undefined ws P N U"
  shows "distinct r \<and> sorted r \<and> sorted_wrt (<) r
       \<and> set r = {w \<in> set ws. \<not> has_key P w \<and> \<not> has_key N w \<and> \<not> has_key U w}
       \<and> (\<forall>w \<in> set ws. w \<in> set r \<longleftrightarrow>
             \<not> has_key P w \<and> \<not> has_key N w \<and> \<not> has_key U w)
       \<and> (\<forall>w. has_key P w \<or> has_key N w \<or> has_key U w \<longrightarrow> w \<notin> set r)"
proof -
  have d: "distinct r" and s: "sorted r"
    by (simp_all add: r_def find_undefined_def)
  then have "sorted_wrt (<) r"
    by (simp add: strict_sorted_iff)
  moreover have "set r = {w \<in> set ws. \<not> has_key P w \<and> \<not> has_key N w \<and> \<not> has_key U w}"
    by (auto simp: r_def find_undefined_def)
  ultimately show ?thesis
    using d s by auto
qed

theorem undefined_sorted_unique_witness:
  "find_undefined [''uno'', ''dos'', ''tres'', ''dos'', ''a'', ''uno'']
      [(''uno'', 1)] [(''malo'', - 1)] [(''a'', 0)] = [''dos'', ''tres'']
   \<and> ''dos'' \<in> set [''uno'', ''dos'', ''tres'', ''dos'', ''a'', ''uno'']
   \<and> \<not> has_key [(''uno'', 1)] ''dos'' \<and> \<not> has_key [(''malo'', - 1)] ''dos''
   \<and> \<not> has_key [(''a'', 0)] ''dos''
   \<and> has_key [(''uno'', 1)] ''uno''
   \<and> ''uno'' \<notin> set (find_undefined [''uno'', ''dos'', ''tres'', ''dos'', ''a'', ''uno'']
      [(''uno'', 1)] [(''malo'', - 1)] [(''a'', 0)])"
proof -
  have ev: "find_undefined [''uno'', ''dos'', ''tres'', ''dos'', ''a'', ''uno'']
      [(''uno'', 1)] [(''malo'', - 1)] [(''a'', 0)] = [''dos'', ''tres'']"
    by code_simp
  show ?thesis
    using undefined_sorted_unique [of "[''uno'', ''dos'', ''tres'', ''dos'', ''a'', ''uno'']"
      "[(''uno'', 1)]" "[(''malo'', - 1)]" "[(''a'', 0)]"]
    by (simp add: ev has_key_def)
qed

section \<open>Properties of the protocol classifier\<close>

lemma no_greeting_in_empty: "list_ex (\<lambda>p. search p []) SALUDOS = False"
  by code_simp

lemma no_farewell_in_empty: "list_ex (\<lambda>p. search p []) DESPEDIDAS = False"
  by code_simp

lemma text_lines_alt:
  "text_lines clean = filter (\<lambda>l. l \<noteq> []) (map strip (splitlines clean))"
  by (simp add: text_lines_def filter_map comp_def)

text \<open>
  C5. With the lines of the lowercased, accent-free text trimmed and the empty ones
  left out, the greeting flag is true exactly when some greeting pattern matches the
  first of these lines and the farewell flag exactly when some farewell pattern matches
  the last one. The lines in between play no part, so a pattern that matches only a
  middle line sets neither flag; and when there is no such line both flags are false.
\<close>

theorem protocol_first_last:
  fixes transcript :: string
  defines "lines \<equiv> filter (\<lambda>l. l \<noteq> []) (map strip (splitlines (strip_accents (lower transcript))))"
  defines "saludo_ok \<equiv> fst (analiza_protocolo transcript)"
  defines "desp_ok \<equiv> snd (snd (snd (analiza_protocolo transcript)))"
  shows "(lines \<noteq> [] \<longrightarrow>
            (saludo_ok \<longleftrightarrow> (\<exists>p \<in> set SALUDOS. search p (hd lines)))
            \<and> (desp_ok \<longleftrightarrow> (\<exists>p \<in> set DESPEDIDAS. search p (last lines))))
       \<and> (\<forall>a ms b. lines = a # ms @ [b] \<longrightarrow>
            (saludo_ok \<longleftrightarrow> (\<exists>p \<in> set SALUDOS. search p a))
            \<and> (desp_ok \<longleftrightarrow> (\<exists>p \<in> set DESPEDIDAS. search p b)))
       \<and> (lines = [] \<longrightarrow> \<not> saludo_ok \<and> \<not> desp_ok)"
proof -
  have l: "text_lines (strip_accents (lower transcript)) = lines"
    by (simp add: lines_def text_lines_alt)
  have s: "saludo_ok = list_ex (\<lambda>p. search p (if lines \<noteq> [] then hd lines else [])) SALUDOS"
    by (simp add: saludo_ok_def analiza_protocolo_def Let_def l)
  have d: "desp_ok = list_ex (\<lambda>p. search p (if lines \<noteq> [] then last lines else [])) DESPEDIDAS"
    by (simp add: desp_ok_def analiza_protocolo_def Let_def l)
  have 1: "lines \<noteq> [] \<longrightarrow>
            (saludo_ok \<longleftrightarrow> (\<exists>p \<in> set SALUDOS. search p (hd lines)))
            \<and> (desp_ok \<longleftrightarrow> (\<exists>p \<in> set DESPEDIDAS. search p (last lines)))"
    by (simp add: s d list_ex_iff)
  have 2: "\<forall>a ms b. lines = a # ms @ [b] \<longrightarrow>
            (saludo_ok \<longleftrightarrow> (\<exists>p \<in> set SALUDOS. search p a))
            \<and> (desp_ok \<longleftrightarrow> (\<exists>p \<in> set DESPEDIDAS. search p b))"
    using 1 by auto
  have 3: "lines = [] \<longrightarrow> \<not> saludo_ok \<and> \<not> desp_ok"
    by (simp add: s d no_greeting_in_empty no_farewell_in_empty)
  from 1 2 3 show ?thesis by blast
qed

theorem protocol_first_last_witness:
  "filter (\<lambda>l. l \<noteq> []) (map strip (splitlines (strip_accents (lower
       (''Buen dia'' @ [CHR 0x0A] @ '' Hola, hasta luego '' @ [CHR 0x0A, CHR 0x0A]
          @ ''nada mas'' @ [CHR 0x0A] @ ''  '')))))
     = ''buen dia'' # [''hola, hasta luego''] @ [''nada mas'']
   \<and> search (word_pat ''hola'') ''hola, hasta luego''
   \<and> search (tail_pat ''hasta luego'') ''hola, hasta luego''
   \<and> \<not> fst (analiza_protocolo
       (''Buen dia'' @ [CHR 0x0A] @ '' Hola, hasta luego '' @ [CHR 0x0A, CHR 0x0A]
          @ ''nada mas'' @ [CHR 0x0A] @ ''  ''))
   \<and> \<not> snd (snd (snd (analiza_protocolo
       (''Buen dia'' @ [CHR 0x0A] @ '' Hola, hasta luego '' @ [CHR 0x0A, CHR 0x0A]
          @ ''nada mas'' @ [CHR 0x0A] @ ''  ''))))"
proof -
  let ?t = "''Buen dia'' @ [CHR 0x0A] @ '' Hola, hasta luego '' @ [CHR 0x0A, CHR 0x0A]
          @ ''nada mas'' @ [CHR 0x0A] @ ''  ''"
  have ls: "filter (\<lambda>l. l \<noteq> []) (map strip (splitlines (strip_accents (lower ?t))))
      = ''buen dia'' # [''hola, hasta luego''] @ [''nada mas'']"
    by code_simp
  have g: "\<not> (\<exists>p \<in> set SALUDOS. search p ''buen dia'')"
    unfolding list_ex_iff [symmetric] by code_simp
  have f: "\<not> (\<exists>p \<in> set DESPEDIDAS. search p ''nada mas'')"
    unfolding list_ex_iff [symmetric] by code_simp
  have m1: "search (word_pat ''hola'') ''hola, hasta luego''"
    by code_simp
  have m2: "search (tail_pat ''hasta luego'') ''hola, hasta luego''"
    by code_simp
  have "\<forall>a ms b. ''buen dia'' # [''hola, hasta luego''] @ [''nada mas''] = a # ms @ [b] \<longrightarrow>
          (fst (analiza_protocolo ?t) \<longleftrightarrow> (\<exists>p \<in> set SALUDOS. search p a))
          \<and> (snd (snd (snd (analiza_protocolo ?t))) \<longleftrightarrow> (\<exists>p \<in> set DESPEDIDAS. search p b))"
    using protocol_first_last [of ?t] unfolding ls by blast
  then have "(fst (analiza_protocolo ?t) \<longleftrightarrow> (\<exists>p \<in> set SALUDOS. search p ''buen dia''))
      \<and> (snd (snd (snd (analiza_protocolo ?t))) \<longleftrightarrow> (\<exists>p \<in> set DESPEDIDAS. search p ''nada mas''))"
    by blast
  with g f ls m1 m2 show ?thesis
    by blast
qed

section \<open>Properties of the candidate suggestions\<close>












section \<open>Properties of saving the lexicon\<close>

lemma map_of_setitem:
  "map_of (setitem d k v) k' = (if k' = k then Some v else map_of d k')"
proof (cases "map_of d k")
  case None
  then show ?thesis
    by (auto simp: setitem_def map_add_def split: option.splits)
next
  case (Some a)
  have "map_of (map (\<lambda>(k', v'). if k' = k then (k', v) else (k', v')) d) k'
      = (if k' = k then (case map_of d k of None \<Rightarrow> None | Some _ \<Rightarrow> Some v) else map_of d k')"
    by (induction d) auto
  with Some show ?thesis
    by (simp add: setitem_def)
qed

lemma others_setitem:
  assumes "k \<in> A"
  shows "filter (\<lambda>f. fst f \<notin> A) (setitem d k v) = filter (\<lambda>f. fst f \<notin> A) d"
proof -
  have "filter (\<lambda>f. fst f \<notin> A) (map (\<lambda>(k', v'). if k' = k then (k', v) else (k', v')) d)
      = filter (\<lambda>f. fst f \<notin> A) d"
    using assms by (induction d) (auto split: if_splits)
  with assms show ?thesis
    by (simp add: setitem_def)
qed

text \<open>
  C9. For a lexicon document that is an object, saving yields the document in which
  the fields \<open>positivos\<close>, \<open>negativos\<close> and \<open>neutros\<close> hold the three dictionaries
  and every other top-level field has the value it had before, the other fields also
  keeping their order. A document that is not an object makes the save raise before
  anything is written.
\<close>

theorem save_preserves_other_fields:
  "(\<forall>data. doc = JObj data \<longrightarrow>
      (\<exists>data'. save_lexicon positivos negativos neutros doc = Inr (JObj data')
         \<and> map_of data' ''positivos'' = Some (dict_json positivos)
         \<and> map_of data' ''negativos'' = Some (dict_json negativos)
         \<and> map_of data' ''neutros'' = Some (dict_json neutros)
         \<and> (\<forall>k. k \<notin> category_fields \<longrightarrow> map_of data' k = map_of data k)
         \<and> filter (\<lambda>f. fst f \<notin> category_fields) data'
             = filter (\<lambda>f. fst f \<notin> category_fields) data))
   \<and> ((\<forall>data. doc \<noteq> JObj data) \<longrightarrow> save_lexicon positivos negativos neutros doc = Inl TypeError)"
proof (intro conjI allI impI)
  fix data assume doc: "doc = JObj data"
  let ?d = "setitem (setitem (setitem data ''positivos'' (dict_json positivos))
                                ''negativos'' (dict_json negativos))
                       ''neutros'' (dict_json neutros)"
  have "save_lexicon positivos negativos neutros doc = Inr (JObj ?d)"
    by (simp add: save_lexicon_def doc)
  moreover have "map_of ?d ''positivos'' = Some (dict_json positivos)"
    "map_of ?d ''negativos'' = Some (dict_json negativos)"
    "map_of ?d ''neutros'' = Some (dict_json neutros)"
    by (simp_all add: map_of_setitem)
  moreover have "\<forall>k. k \<notin> category_fields \<longrightarrow> map_of ?d k = map_of data k"
    by (simp add: map_of_setitem category_fields_def)
  moreover have "filter (\<lambda>f. fst f \<notin> category_fields) ?d
             = filter (\<lambda>f. fst f \<notin> category_fields) data"
  proof -
    have m: "''positivos'' \<in> category_fields" "''negativos'' \<in> category_fields"
      "''neutros'' \<in> category_fields"
      by (simp_all add: category_fields_def)
    show ?thesis
      by (simp only: others_setitem [OF m(1)] others_setitem [OF m(2)] others_setitem [OF m(3)])
  qed
  ultimately show "\<exists>data'. save_lexicon positivos negativos neutros doc = Inr (JObj data')
         \<and> map_of data' ''positivos'' = Some (dict_json positivos)
         \<and> map_of data' ''negativos'' = Some (dict_json negativos)
         \<and> map_of data' ''neutros'' = Some (dict_json neutros)
         \<and> (\<forall>k. k \<notin> category_fields \<longrightarrow> map_of data' k = map_of data k)
         \<and> filter (\<lambda>f. fst f \<notin> category_fields) data'
             = filter (\<lambda>f. fst f \<notin> category_fields) data"
    by blast
next
  assume "\<forall>data. doc \<noteq> JObj data"
  then show "save_lexicon positivos negativos neutros doc = Inl TypeError"
    by (cases doc) (simp_all add: save_lexicon_def)
qed


theorem save_preserves_other_fields_witness:
  "save_lexicon [(''bien'', 2)] [(''mal'', - 1)] []
      (JObj [(''version'', JInt 3), (''negativos'', JObj [(''feo'', JInt (- 2))]),
             (''autor'', JStr ''ana'')])
     = Inr (JObj [(''version'', JInt 3), (''negativos'', JObj [(''mal'', JInt (- 1))]),
                  (''autor'', JStr ''ana''), (''positivos'', JObj [(''bien'', JInt 2)]),
                  (''neutros'', JObj [])])
   \<and> ''version'' \<notin> category_fields
   \<and> (\<exists>data'. save_lexicon [(''bien'', 2)] [(''mal'', - 1)] []
          (JObj [(''version'', JInt 3), (''negativos'', JObj [(''feo'', JInt (- 2))]),
                 (''autor'', JStr ''ana'')]) = Inr (JObj data')
        \<and> map_of data' ''version'' = Some (JInt 3))"
proof -
  let ?doc = "[(''version'', JInt 3), (''negativos'', JObj [(''feo'', JInt (- 2))]),
             (''autor'', JStr ''ana'')]"
  have ev: "save_lexicon [(''bien'', 2)] [(''mal'', - 1)] [] (JObj ?doc)
     = Inr (JObj [(''version'', JInt 3), (''negativos'', JObj [(''mal'', JInt (- 1))]),
                  (''autor'', JStr ''ana''), (''positivos'', JObj [(''bien'', JInt 2)]),
                  (''neutros'', JObj [])])"
    by (simp add: save_lexicon_def setitem_def dict_json_def)
  have v: "''version'' \<notin> category_fields"
    by (simp add: category_fields_def)
  obtain data' where d: "save_lexicon [(''bien'', 2)] [(''mal'', - 1)] [] (JObj ?doc) = Inr (JObj data')"
    and o: "\<forall>k. k \<notin> category_fields \<longrightarrow> map_of data' k = map_of ?doc k"
    using save_preserves_other_fields [of "JObj ?doc" "[(''bien'', 2)]" "[(''mal'', - 1)]" "[]"]
    by blast
  from o v have "map_of data' ''version'' = Some (JInt 3)"
    by simp
  with d ev v show ?thesis
    by blast
qed

section \<open>Properties of the resolver\<close>

lemma setitem_new: "\<not> has_key d k \<Longrightarrow> setitem d k v = d @ [(k, v)]"
  by (simp add: setitem_def has_key_def)

lemma isdigit_nonempty: "isdigit l \<Longrightarrow> l \<noteq> []"
  by (simp add: isdigit_def)

lemma iteration_selected:
  assumes "valid_selection s l1 idx"
  shows "iteration lex_keys s (l1 # l2 # ins) =
     (if lower (strip l2) = ''s''
      then classify idx (strip_accents (lower (q_undefined s ! idx))) s ins
      else suggest lex_keys idx (q_undefined s ! idx)
             (strip_accents (lower (q_undefined s ! idx))) s ins)"
  using assms isdigit_nonempty [of "strip l1"]
  by (simp add: iteration_def valid_selection_def Let_def)

lemma iteration_effect_sel:
  assumes "iteration lex_keys s ins = (out, s', ins')"
  shows "s' = s
       \<or> (\<exists>l1 l2 js idx. ins = l1 # l2 # js \<and> valid_selection s l1 idx
            \<and> (if lower (strip l2) = ''s''
                then classify idx (strip_accents (lower (q_undefined s ! idx))) s js
                else suggest lex_keys idx (q_undefined s ! idx)
                       (strip_accents (lower (q_undefined s ! idx))) s js) = (out, s', ins'))"
proof (cases ins)
  case Nil
  with assms show ?thesis by (simp add: iteration_def)
next
  case (Cons l1 r)
  show ?thesis
  proof (cases "\<exists>idx. valid_selection s l1 idx")
    case False
    have "py_int (strip l1) = Some n \<Longrightarrow> isdigit (strip l1) \<Longrightarrow> 1 \<le> n
        \<Longrightarrow> n \<le> int (length (q_undefined s)) \<Longrightarrow> valid_selection s l1 (nat (n - 1))" for n
      by (simp add: valid_selection_def)
    with False have "py_int (strip l1) = Some n \<Longrightarrow> isdigit (strip l1)
        \<Longrightarrow> \<not> (1 \<le> n \<and> n \<le> int (length (q_undefined s)))" for n
      by blast
    with assms Cons show ?thesis
      by (auto simp: iteration_def Let_def split: option.splits if_splits)
  next
    case True
    then obtain idx where v: "valid_selection s l1 idx" by blast
    show ?thesis
    proof (cases r)
      case Nil
      with assms Cons v isdigit_nonempty [of "strip l1"] show ?thesis
        by (auto simp: iteration_def Let_def valid_selection_def split: option.splits if_splits)
    next
      case (Cons l2 js)
      with assms \<open>ins = l1 # r\<close> v iteration_selected [OF v, of lex_keys l2 js] show ?thesis
        by auto
    qed
  qed
qed

lemma classify_effect:
  assumes "classify idx word s ins = (out, s', ins')"
  shows "s' = s
       \<or> (out = Continue \<and> (\<exists>l3 l4 p. ins = l3 # l4 # ins' \<and> lower (strip l3) = ''p''
             \<and> py_int (strip l4) = Some p \<and> 1 \<le> p \<and> p \<le> 3 \<and> \<not> has_key (d_positivos s) word
             \<and> s' = s\<lparr>d_positivos := d_positivos s @ [(word, p)],
                      q_undefined := pop (q_undefined s) idx\<rparr>))
       \<or> (out = Continue \<and> (\<exists>l3 l4 n. ins = l3 # l4 # ins' \<and> lower (strip l3) = ''n''
             \<and> py_int (strip l4) = Some n \<and> - 3 \<le> n \<and> n \<le> - 1 \<and> \<not> has_key (d_negativos s) word
             \<and> s' = s\<lparr>d_negativos := d_negativos s @ [(word, n)],
                      q_undefined := pop (q_undefined s) idx\<rparr>))
       \<or> (out = Continue \<and> (\<exists>l3. ins = l3 # ins' \<and> lower (strip l3) = ''t''
             \<and> \<not> has_key (d_neutros s) word
             \<and> s' = s\<lparr>d_neutros := d_neutros s @ [(word, 0)],
                      q_undefined := pop (q_undefined s) idx\<rparr>))"
  using assms
  by (auto simp: classify_def Let_def setitem_new split: list.splits option.splits if_splits)

lemma suggest_effect:
  assumes "suggest lex_keys idx raw word s ins = (out, s', ins')"
  shows "s' = s
       \<or> (out = Continue \<and> (\<exists>l3 n. ins = l3 # ins' \<and> isdigit (strip l3)
             \<and> py_int (strip l3) = Some n \<and> 1 \<le> n
             \<and> n \<le> int (length (suggest_candidates word lex_keys 5))
             \<and> s' = s\<lparr>f_txt := replace (f_txt s) raw
                                  (fst (suggest_candidates word lex_keys 5 ! nat (n - 1))),
                      q_undefined := pop (q_undefined s) idx\<rparr>))"
  using assms
  by (auto simp: suggest_def Let_def split: list.splits option.splits if_splits)


text \<open>
  C2. One pass of the resolver loop either leaves the queue, the three dictionaries and
  the transcript untouched, or it ends in exactly one of the success paths, in which
  one queue entry is removed: a valid selection, the answer "s", a category letter and,
  for Positive and Negative, a weight in range, with the word not yet a key of the
  chosen dictionary, which appends the word there; or a valid selection, another
  answer and the number of one of the listed candidates, which rewrites the transcript.
  Every other path (invalid selection, unknown category letter, weight out of range or
  not a number, word already in the chosen dictionary, omitted suggestion, end of
  input) therefore changes nothing.
\<close>

theorem resolver_removes_only_on_success:
  assumes "iteration lex_keys s ins = (out, s', ins')"
  shows "s' = s
       \<or> (out = Continue \<and> (\<exists>l1 l2 l3 l4 idx p.
             ins = l1 # l2 # l3 # l4 # ins' \<and> valid_selection s l1 idx
             \<and> lower (strip l2) = ''s'' \<and> lower (strip l3) = ''p''
             \<and> py_int (strip l4) = Some p \<and> 1 \<le> p \<and> p \<le> 3
             \<and> \<not> has_key (d_positivos s) (strip_accents (lower (q_undefined s ! idx)))
             \<and> s' = s\<lparr>d_positivos := d_positivos s
                                          @ [(strip_accents (lower (q_undefined s ! idx)), p)],
                      q_undefined := pop (q_undefined s) idx\<rparr>))
       \<or> (out = Continue \<and> (\<exists>l1 l2 l3 l4 idx n.
             ins = l1 # l2 # l3 # l4 # ins' \<and> valid_selection s l1 idx
             \<and> lower (strip l2) = ''s'' \<and> lower (strip l3) = ''n''
             \<and> py_int (strip l4) = Some n \<and> - 3 \<le> n \<and> n \<le> - 1
             \<and> \<not> has_key (d_negativos s) (strip_accents (lower (q_undefined s ! idx)))
             \<and> s' = s\<lparr>d_negativos := d_negativos s
                                          @ [(strip_accents (lower (q_undefined s ! idx)), n)],
                      q_undefined := pop (q_undefined s) idx\<rparr>))
       \<or> (out = Continue \<and> (\<exists>l1 l2 l3 idx.
             ins = l1 # l2 # l3 # ins' \<and> valid_selection s l1 idx
             \<and> lower (strip l2) = ''s'' \<and> lower (strip l3) = ''t''
             \<and> \<not> has_key (d_neutros s) (strip_accents (lower (q_undefined s ! idx)))
             \<and> s' = s\<lparr>d_neutros := d_neutros s
                                        @ [(strip_accents (lower (q_undefined s ! idx)), 0)],
                      q_undefined := pop (q_undefined s) idx\<rparr>))
       \<or> (out = Continue \<and> (\<exists>l1 l2 l3 idx n.
             ins = l1 # l2 # l3 # ins' \<and> valid_selection s l1 idx
             \<and> lower (strip l2) \<noteq> ''s'' \<and> isdigit (strip l3) \<and> py_int (strip l3) = Some n
             \<and> 1 \<le> n
             \<and> n \<le> int (length (suggest_candidates
                                    (strip_accents (lower (q_undefined s ! idx))) lex_keys 5))
             \<and> s' = s\<lparr>f_txt := replace (f_txt s) (q_undefined s ! idx)
                          (fst (suggest_candidates
                                  (strip_accents (lower (q_undefined s ! idx))) lex_keys 5
                                ! nat (n - 1))),
                      q_undefined := pop (q_undefined s) idx\<rparr>))"
    (is "?U \<or> ?A \<or> ?B \<or> ?C \<or> ?D")
proof -
  consider "s' = s"
    | l1 l2 js idx where "ins = l1 # l2 # js" "valid_selection s l1 idx"
        "lower (strip l2) = ''s''"
        "classify idx (strip_accents (lower (q_undefined s ! idx))) s js = (out, s', ins')"
    | l1 l2 js idx where "ins = l1 # l2 # js" "valid_selection s l1 idx"
        "lower (strip l2) \<noteq> ''s''"
        "suggest lex_keys idx (q_undefined s ! idx)
           (strip_accents (lower (q_undefined s ! idx))) s js = (out, s', ins')"
    using iteration_effect_sel [OF assms] by (auto split: if_splits)
  then show ?thesis
  proof cases
    case 1
    then show ?thesis by simp
  next
    case 2
    let ?w = "strip_accents (lower (q_undefined s ! idx))"
    from classify_effect [OF 2(4)] consider
        (u) "s' = s"
      | (p) l3 l4 p where "out = Continue" "js = l3 # l4 # ins'" "lower (strip l3) = ''p''"
          "py_int (strip l4) = Some p" "1 \<le> p" "p \<le> 3" "\<not> has_key (d_positivos s) ?w"
          "s' = s\<lparr>d_positivos := d_positivos s @ [(?w, p)],
                  q_undefined := pop (q_undefined s) idx\<rparr>"
      | (n) l3 l4 n where "out = Continue" "js = l3 # l4 # ins'" "lower (strip l3) = ''n''"
          "py_int (strip l4) = Some n" "- 3 \<le> n" "n \<le> - 1" "\<not> has_key (d_negativos s) ?w"
          "s' = s\<lparr>d_negativos := d_negativos s @ [(?w, n)],
                  q_undefined := pop (q_undefined s) idx\<rparr>"
      | (t) l3 where "out = Continue" "js = l3 # ins'" "lower (strip l3) = ''t''"
          "\<not> has_key (d_neutros s) ?w"
          "s' = s\<lparr>d_neutros := d_neutros s @ [(?w, 0)],
                  q_undefined := pop (q_undefined s) idx\<rparr>"
      by (elim disjE conjE exE) auto
    then show ?thesis
    proof cases
      case u
      then show ?thesis by simp
    next
      case p
      have ?A
        using 2(1,2,3) p
        by (intro conjI exI [of _ l1] exI [of _ l2] exI [of _ l3] exI [of _ l4]
              exI [of _ idx] exI [of _ p]) simp_all
      then show ?thesis by (rule disjI2 [OF disjI1])
    next
      case n
      have ?B
        using 2(1,2,3) n
        by (intro conjI exI [of _ l1] exI [of _ l2] exI [of _ l3] exI [of _ l4]
              exI [of _ idx] exI [of _ n]) simp_all
      then show ?thesis by (rule disjI2 [OF disjI2 [OF disjI1]])
    next
      case t
      have ?C
        using 2(1,2,3) t
        by (intro conjI exI [of _ l1] exI [of _ l2] exI [of _ l3] exI [of _ idx]) simp_all
      then show ?thesis by (rule disjI2 [OF disjI2 [OF disjI2 [OF disjI1]]])
    qed
  next
    case 3
    let ?w = "strip_accents (lower (q_undefined s ! idx))"
    from suggest_effect [OF 3(4)] consider
        (u) "s' = s"
      | (r) l3 n where "out = Continue" "js = l3 # ins'" "isdigit (strip l3)"
          "py_int (strip l3) = Some n" "1 \<le> n"
          "n \<le> int (length (suggest_candidates ?w lex_keys 5))"
          "s' = s\<lparr>f_txt := replace (f_txt s) (q_undefined s ! idx)
                            (fst (suggest_candidates ?w lex_keys 5 ! nat (n - 1))),
                  q_undefined := pop (q_undefined s) idx\<rparr>"
      by (elim disjE conjE exE) auto
    then show ?thesis
    proof cases
      case u
      then show ?thesis by simp
    next
      case r
      have ?D
        using 3(1,2,3) r
        by (intro conjI exI [of _ l1] exI [of _ l2] exI [of _ l3] exI [of _ idx]
              exI [of _ n]) simp_all
      then show ?thesis by (rule disjI2 [OF disjI2 [OF disjI2 [OF disjI2]]])
    qed
  qed
qed


theorem resolver_removes_only_on_success_witness:
  "iteration [''bien'']
      \<lparr>q_undefined = [''mal'', ''genial''], d_positivos = [(''bien'', 1)], d_negativos = [],
       d_neutros = [], f_txt = ''Genial, mal''\<rparr> [''2'', ''S'', '' p '', ''+3'', ''1'']
     = (Continue,
        \<lparr>q_undefined = [''mal''], d_positivos = [(''bien'', 1), (''genial'', 3)],
         d_negativos = [], d_neutros = [], f_txt = ''Genial, mal''\<rparr>, [''1''])
   \<and> iteration [''bien'']
      \<lparr>q_undefined = [''mal'', ''genial''], d_positivos = [(''bien'', 1)], d_negativos = [],
       d_neutros = [], f_txt = ''Genial, mal''\<rparr> [''2'', ''s'', ''p'', ''4'', ''1'']
     = (Continue,
        \<lparr>q_undefined = [''mal'', ''genial''], d_positivos = [(''bien'', 1)], d_negativos = [],
         d_neutros = [], f_txt = ''Genial, mal''\<rparr>, [''1''])
   \<and> (\<exists>idx. valid_selection
         \<lparr>q_undefined = [''mal'', ''genial''], d_positivos = [(''bien'', 1)], d_negativos = [],
          d_neutros = [], f_txt = ''Genial, mal''\<rparr> ''2'' idx)"
proof -
  let ?s = "\<lparr>q_undefined = [''mal'', ''genial''], d_positivos = [(''bien'', 1)],
       d_negativos = [], d_neutros = [], f_txt = ''Genial, mal''\<rparr>"
  let ?s' = "\<lparr>q_undefined = [''mal''], d_positivos = [(''bien'', 1), (''genial'', 3)],
         d_negativos = [], d_neutros = [], f_txt = ''Genial, mal''\<rparr>"
  have ok: "iteration [''bien''] ?s [''2'', ''S'', '' p '', ''+3'', ''1''] = (Continue, ?s', [''1''])"
    by code_simp
  have bad: "iteration [''bien''] ?s [''2'', ''s'', ''p'', ''4'', ''1''] = (Continue, ?s, [''1''])"
    by code_simp
  have ne: "?s' \<noteq> ?s"
    by simp
  from resolver_removes_only_on_success [OF ok] ne
  have "\<exists>idx. valid_selection ?s ''2'' idx"
    by (elim disjE conjE exE) auto
  with ok bad show ?thesis
    by blast
qed








text \<open>
  C1. The classification step looks for the selected word only in the dictionary of the
  chosen category. A word that is already a key of Positive and is classified as
  Negative with a weight in range is inserted into Negative and leaves the queue.
\<close>

theorem any_category_duplicate_counterexample:
  "has_key [(''bueno'', 2)] ''bueno''
   \<and> iteration [''bueno'']
        \<lparr>q_undefined = [''bueno''], d_positivos = [(''bueno'', 2)], d_negativos = [],
         d_neutros = [], f_txt = ''muy bueno''\<rparr> [''1'', ''s'', ''n'', ''-2'']
      = (Continue,
         \<lparr>q_undefined = [], d_positivos = [(''bueno'', 2)], d_negativos = [(''bueno'', - 2)],
          d_neutros = [], f_txt = ''muy bueno''\<rparr>, [])"
  by code_simp

text \<open>
  C1, as the code has it. After a valid selection and the answer "s", classifying the
  selected word into a category of which it is already a key is rejected: the pass
  leaves the queue, the three dictionaries and the transcript as they were. When the
  word is not a key of the chosen category (and the weight, where one is asked, is in
  range) it is appended there and the entry is removed, whatever the other two
  dictionaries hold.
\<close>

theorem target_duplicate_rejected:
  fixes s :: resolver and idx :: nat
  defines "word \<equiv> strip_accents (lower (q_undefined s ! idx))"
  assumes sel: "valid_selection s l1 idx" and valid: "lower (strip l2) = ''s''"
  shows "(lower (strip l3) = ''p'' \<and> has_key (d_positivos s) word \<longrightarrow>
            fst (snd (iteration lex_keys s (l1 # l2 # l3 # ins))) = s)
       \<and> (lower (strip l3) = ''n'' \<and> has_key (d_negativos s) word \<longrightarrow>
            fst (snd (iteration lex_keys s (l1 # l2 # l3 # ins))) = s)
       \<and> (lower (strip l3) = ''t'' \<and> has_key (d_neutros s) word \<longrightarrow>
            iteration lex_keys s (l1 # l2 # l3 # ins) = (Continue, s, ins))
       \<and> (lower (strip l3) = ''p'' \<and> py_int (strip l4) = Some p \<and> 1 \<le> p \<and> p \<le> 3
            \<and> \<not> has_key (d_positivos s) word \<longrightarrow>
            iteration lex_keys s (l1 # l2 # l3 # l4 # ins) =
              (Continue, s\<lparr>d_positivos := d_positivos s @ [(word, p)],
                          q_undefined := pop (q_undefined s) idx\<rparr>, ins))
       \<and> (lower (strip l3) = ''n'' \<and> py_int (strip l4) = Some n \<and> - 3 \<le> n \<and> n \<le> - 1
            \<and> \<not> has_key (d_negativos s) word \<longrightarrow>
            iteration lex_keys s (l1 # l2 # l3 # l4 # ins) =
              (Continue, s\<lparr>d_negativos := d_negativos s @ [(word, n)],
                          q_undefined := pop (q_undefined s) idx\<rparr>, ins))
       \<and> (lower (strip l3) = ''t'' \<and> \<not> has_key (d_neutros s) word \<longrightarrow>
            iteration lex_keys s (l1 # l2 # l3 # ins) =
              (Continue, s\<lparr>d_neutros := d_neutros s @ [(word, 0)],
                          q_undefined := pop (q_undefined s) idx\<rparr>, ins))"
proof -
  have it: "iteration lex_keys s (l1 # l2 # js) = classify idx word s js" for js
    using valid by (simp add: iteration_selected [OF sel] word_def)
  have 1: "lower (strip l3) = ''p'' \<and> has_key (d_positivos s) word \<longrightarrow>
            fst (snd (iteration lex_keys s (l1 # l2 # l3 # ins))) = s"
    by (auto simp: it classify_def Let_def split: list.splits option.splits)
  have 2: "lower (strip l3) = ''n'' \<and> has_key (d_negativos s) word \<longrightarrow>
            fst (snd (iteration lex_keys s (l1 # l2 # l3 # ins))) = s"
    by (auto simp: it classify_def Let_def split: list.splits option.splits)
  have 3: "lower (strip l3) = ''t'' \<and> has_key (d_neutros s) word \<longrightarrow>
            iteration lex_keys s (l1 # l2 # l3 # ins) = (Continue, s, ins)"
    by (auto simp: it classify_def Let_def)
  have 4: "lower (strip l3) = ''p'' \<and> py_int (strip l4) = Some p \<and> 1 \<le> p \<and> p \<le> 3
            \<and> \<not> has_key (d_positivos s) word \<longrightarrow>
            iteration lex_keys s (l1 # l2 # l3 # l4 # ins) =
              (Continue, s\<lparr>d_positivos := d_positivos s @ [(word, p)],
                          q_undefined := pop (q_undefined s) idx\<rparr>, ins)"
    by (auto simp: it classify_def Let_def setitem_new)
  have 5: "lower (strip l3) = ''n'' \<and> py_int (strip l4) = Some n \<and> - 3 \<le> n \<and> n \<le> - 1
            \<and> \<not> has_key (d_negativos s) word \<longrightarrow>
            iteration lex_keys s (l1 # l2 # l3 # l4 # ins) =
              (Continue, s\<lparr>d_negativos := d_negativos s @ [(word, n)],
                          q_undefined := pop (q_undefined s) idx\<rparr>, ins)"
    by (auto simp: it classify_def Let_def setitem_new)
  have 6: "lower (strip l3) = ''t'' \<and> \<not> has_key (d_neutros s) word \<longrightarrow>
            iteration lex_keys s (l1 # l2 # l3 # ins) =
              (Continue, s\<lparr>d_neutros := d_neutros s @ [(word, 0)],
                          q_undefined := pop (q_undefined s) idx\<rparr>, ins)"
    by (auto simp: it classify_def Let_def setitem_new)
  from 1 2 3 4 5 6 show ?thesis by blast
qed

theorem target_duplicate_rejected_witness:
  "valid_selection
      \<lparr>q_undefined = [''bueno''], d_positivos = [(''bueno'', 2)], d_negativos = [],
       d_neutros = [], f_txt = ''muy bueno''\<rparr> ''1'' 0
   \<and> lower (strip ''s'') = ''s'' \<and> lower (strip ''P'') = ''p''
   \<and> has_key [(''bueno'', 2)] (strip_accents (lower ''bueno''))
   \<and> fst (snd (iteration [''bueno'']
        \<lparr>q_undefined = [''bueno''], d_positivos = [(''bueno'', 2)], d_negativos = [],
         d_neutros = [], f_txt = ''muy bueno''\<rparr> [''1'', ''s'', ''P'', ''3'']))
      = \<lparr>q_undefined = [''bueno''], d_positivos = [(''bueno'', 2)], d_negativos = [],
         d_neutros = [], f_txt = ''muy bueno''\<rparr>"
proof -
  let ?s = "\<lparr>q_undefined = [''bueno''], d_positivos = [(''bueno'', 2)], d_negativos = [],
       d_neutros = [], f_txt = ''muy bueno''\<rparr>"
  have sel: "valid_selection ?s ''1'' 0"
    by code_simp
  have v: "lower (strip ''s'') = ''s''"
    by code_simp
  have c: "lower (strip ''P'') = ''p''"
    by code_simp
  have h: "has_key [(''bueno'', 2)] (strip_accents (lower ''bueno''))"
    by code_simp
  have h': "has_key (d_positivos ?s) (strip_accents (lower (q_undefined ?s ! 0)))"
    using h by simp
  from target_duplicate_rejected [OF sel v, of "''P''" "[''bueno'']" "[''3'']"] c h'
  have "fst (snd (iteration [''bueno''] ?s [''1'', ''s'', ''P'', ''3''])) = ?s"
    by blast
  with sel v c h show ?thesis
    by blast
qed

end
